theory Spec2Isabelle
  imports Main "HOL-Library.Char_ord" "HOL-Library.List_Lexorder" "HOL-Library.AList"
begin

section \<open>The statistics store of ReFrame (reframe/frontend/statistics.py)\<close>

text \<open>
  The class \<open>TestStats\<close> keeps the tasks of every run of a session in one list of lists,
  \<open>_alltasks\<close>, and renders five reports from it. The tasks, the checks they refer to and
  the run counter of the runtime are objects of other modules; here they are records
  holding exactly the attributes that \<open>statistics.py\<close> reads.
\<close>

subsection \<open>Python values and exceptions\<close>

text \<open>
  Every exception that can leave a method of the class is a value of \<open>error\<close>:
  \<open>StatisticsError\<close> is raised by \<open>tasks\<close>, \<open>IndexError\<close> by indexing a list or a tuple
  out of range, \<open>AttributeError\<close> by reading an attribute of \<open>None\<close>. \<open>OtherError\<close>
  stands for whatever the imported \<open>format_exception\<close> may raise.
\<close>

datatype error = StatisticsError string | IndexError | AttributeError | OtherError string

text \<open>\<open>str(n)\<close> of a Python integer, in decimal.\<close>

fun str_nat :: "nat \<Rightarrow> string" where
  "str_nat n =
     (if n < 10 then [''0123456789'' ! n]
      else str_nat (n div 10) @ [''0123456789'' ! (n mod 10)])"

declare str_nat.simps [simp del]

definition str_int :: "int \<Rightarrow> string" where
  "str_int i = (if i < 0 then CHR ''-'' # str_nat (nat (- i)) else str_nat (nat i))"

text \<open>\<open>'%s' % v\<close> for a value that is a string or \<open>None\<close>.\<close>

definition str_opt :: "string option \<Rightarrow> string" where
  "str_opt v = (case v of None \<Rightarrow> ''None'' | Some s \<Rightarrow> s)"

text \<open>\<open>sep.join(xs)\<close>.\<close>

fun join :: "string \<Rightarrow> string list \<Rightarrow> string" where
  "join sep [] = []"
| "join sep [x] = x"
| "join sep (x # y # ys) = x @ sep @ join sep (y # ys)"

text \<open>\<open>s.split(sep)\<close> for a separator of one character; the result is never empty.\<close>

fun split :: "char \<Rightarrow> string \<Rightarrow> string list" where
  "split sep [] = [[]]"
| "split sep (c # cs) =
     (if c = sep then [] # split sep cs
      else (case split sep cs of [] \<Rightarrow> [[c]] | w # ws \<Rightarrow> (c # w) # ws))"

text \<open>\<open>'{:<w}'.format(s)\<close>: the text, padded with blanks on the right up to width \<open>w\<close>.\<close>

definition ljust :: "nat \<Rightarrow> string \<Rightarrow> string" where
  "ljust w s = s @ replicate (w - length s) CHR '' ''"

text \<open>The line separator of all the reports.\<close>

definition nl :: string where
  "nl = [CHR 0x0A]"

definition line_width :: nat where
  "line_width = 78"

subsection \<open>The objects read by the class\<close>

record scheduler_type =
  registered_name :: string

record system_partition =
  fullname :: string
  scheduler :: scheduler_type

text \<open>
  An environment is read through its \<open>name\<close> and, in the performance report, through
  \<open>str()\<close>; \<open>environ_str\<close> is the text \<open>str()\<close> returns for it.
\<close>

record environ =
  environ_name :: string
  environ_str :: string

record job =
  jobid :: "int option"
  nodelist :: "string list option"

text \<open>
  A check. \<open>stdout\<close>, \<open>stderr\<close>, \<open>build_stdout\<close> and \<open>build_stderr\<close> hold what
  \<open>evaluate()\<close> returns for the deferred expressions of these names, \<open>info\<close> what the
  method \<open>info()\<close> returns. \<open>perfvalues\<close> is the dictionary of performance values in the
  order of its items; the elements of each tuple are kept as the text \<open>str()\<close> gives for
  them, which is all the report does with them.
\<close>

record check =
  name :: string
  descr :: string
  info :: string
  current_partition :: "system_partition option"
  current_environ :: "environ option"
  tags :: "string list"
  maintainers :: "string list"
  job :: "job option"
  build_job :: "job option"
  stdout :: string
  stderr :: string
  build_stdout :: string
  build_stderr :: string
  stagedir :: "string option"
  outputdir :: "string option"
  num_tasks :: int
  perfvalues :: "(string \<times> string list) list"

text \<open>
  A task. \<open>exc_info\<close> is \<open>None\<close> or the exception triple, of a type \<open>'x\<close> left open;
  \<open>failed_stage\<close> is read for failed tasks only.
\<close>

record 'x task =
  check :: check
  failed :: bool
  failed_stage :: string
  exc_info :: "'x option"

text \<open>The store: \<open>[[run0_tasks], [run1_tasks], ...]\<close>.\<close>

record 'x test_stats =
  alltasks :: "'x task list list"

text \<open>\<open>__init__\<close>: one run, empty.\<close>

definition init :: "'x test_stats" where
  "init = \<lparr>alltasks = [[]]\<rparr>"

subsection \<open>The store\<close>

text \<open>
  \<open>add_task\<close> reads the run counter of the runtime, a counter that starts at 0 and is only
  incremented: the parameter \<open>current_run\<close>. Indexing \<open>_alltasks\<close> beyond its end raises
  \<open>IndexError\<close>, which the method does not catch; nothing has been changed by then.
\<close>

definition add_task :: "nat \<Rightarrow> 'x task \<Rightarrow> 'x test_stats \<Rightarrow> error + 'x test_stats" where
  "add_task current_run t st =
     (let runs = (if current_run = length (alltasks st) then alltasks st @ [[]]
                  else alltasks st)
      in if current_run < length runs
         then Inr (st\<lparr>alltasks := runs[current_run := runs ! current_run @ [t]]\<rparr>)
         else Inl IndexError)"

text \<open>
  \<open>tasks\<close>: \<open>self._alltasks[run]\<close> with Python's indexing, where a negative index counts
  from the end; the \<open>IndexError\<close> of an index out of range is turned into a
  \<open>StatisticsError\<close>.
\<close>

definition tasks :: "'x test_stats \<Rightarrow> int \<Rightarrow> error + 'x task list" where
  "tasks st run =
     (if 0 \<le> run \<and> run < int (length (alltasks st))
      then Inr (alltasks st ! nat run)
      else if run < 0 \<and> - int (length (alltasks st)) \<le> run
      then Inr (alltasks st ! nat (int (length (alltasks st)) + run))
      else Inl (StatisticsError (''no such run: '' @ str_int run)))"

definition failures :: "'x test_stats \<Rightarrow> int \<Rightarrow> error + 'x task list" where
  "failures st run =
     (case tasks st run of Inl e \<Rightarrow> Inl e | Inr ts \<Rightarrow> Inr (filter failed ts))"

definition num_cases :: "'x test_stats \<Rightarrow> int \<Rightarrow> error + nat" where
  "num_cases st run =
     (case tasks st run of Inl e \<Rightarrow> Inl e | Inr ts \<Rightarrow> Inr (length ts))"

subsection \<open>The retry report\<close>

definition retry_key :: "'x task \<Rightarrow> string" where
  "retry_key t =
     (let partition_name = (case current_partition (check t) of
                              None \<Rightarrow> '''' | Some p \<Rightarrow> fullname p);
          environ_nm = (case current_environ (check t) of
                          None \<Rightarrow> '''' | Some e \<Rightarrow> environ_name e)
      in name (check t) @ '':'' @ partition_name @ '':'' @ environ_nm)"

definition retry_message :: "'x task \<Rightarrow> nat \<Rightarrow> string" where
  "retry_message t run =
     ''  * Test '' @ info (check t) @ '' was retried '' @ str_nat run @ '' time(s) and ''
       @ (if failed t then ''failed'' else ''passed'') @ ''.''"

text \<open>
  The dictionary \<open>messages\<close> is an association list: \<open>AList.update\<close> overwrites the value
  of a key that is there and adds a new key at the end, as the assignment
  \<open>messages[key] = ...\<close> does.
\<close>

fun retry_tasks :: "'x task list \<Rightarrow> nat \<Rightarrow> (string \<times> string) list \<Rightarrow> (string \<times> string) list"
  where
  "retry_tasks [] run messages = messages"
| "retry_tasks (t # ts) run messages =
     retry_tasks ts run (AList.update (retry_key t) (retry_message t run) messages)"

fun retry_runs ::
  "'x test_stats \<Rightarrow> nat list \<Rightarrow> (string \<times> string) list \<Rightarrow> error + (string \<times> string) list"
  where
  "retry_runs st [] messages = Inr messages"
| "retry_runs st (run # runs) messages =
     (case tasks st (int run) of
        Inl e \<Rightarrow> Inl e
      | Inr ts \<Rightarrow> retry_runs st runs (retry_tasks ts run messages))"

text \<open>The final dictionary, after the loop over \<open>range(1, len(self._alltasks))\<close>.\<close>

definition retry_messages :: "'x test_stats \<Rightarrow> error + (string \<times> string) list" where
  "retry_messages st = retry_runs st [1..<length (alltasks st)] []"

text \<open>\<open>[messages[key] for key in sorted(messages.keys())]\<close>.\<close>

definition retry_lines :: "(string \<times> string) list \<Rightarrow> string list" where
  "retry_lines messages = map (\<lambda>key. the (map_of messages key)) (sort (map fst messages))"

definition retry_report :: "nat \<Rightarrow> 'x test_stats \<Rightarrow> error + string" where
  "retry_report current_run st =
     (if current_run = 0 then Inr ''''
      else case retry_messages st of
             Inl e \<Rightarrow> Inl e
           | Inr messages \<Rightarrow>
               Inr (join nl ([replicate line_width CHR ''='', ''SUMMARY OF RETRIES'',
                              replicate line_width CHR ''-''] @ retry_lines messages)))"

subsection \<open>The projector\<close>

text \<open>
  A projected record: the dictionary \<open>entry\<close> of \<open>json\<close>, one field \<open>r_k\<close> for each key
  \<open>k\<close>, \<open>None\<close> for Python's \<open>None\<close>.
\<close>

record entry =
  r_testname :: string
  r_description :: string
  r_system :: "string option"
  r_environment :: "string option"
  r_tags :: "string list"
  r_maintainers :: "string list"
  r_scheduler :: "string option"
  r_jobid :: "int option"
  r_nodelist :: "string list"
  r_job_stdout :: "string option"
  r_job_stderr :: "string option"
  r_build_stdout :: "string option"
  r_build_stderr :: "string option"
  r_failing_reason :: "string option"
  r_failing_phase :: "string option"
  r_outputdir :: "string option"
  r_stagedir :: "string option"
  r_result :: string
  r_run_no :: nat

text \<open>The dictionary as first built, before the conditional assignments.\<close>

definition entry_init :: "'x task \<Rightarrow> entry" where
  "entry_init t =
     \<lparr>r_testname = name (check t),
      r_description = descr (check t),
      r_system = map_option fullname (current_partition (check t)),
      r_environment = map_option environ_name (current_environ (check t)),
      r_tags = tags (check t),
      r_maintainers = maintainers (check t),
      r_scheduler = None, r_jobid = None, r_nodelist = [],
      r_job_stdout = None, r_job_stderr = None,
      r_build_stdout = None, r_build_stderr = None,
      r_failing_reason = None, r_failing_phase = None,
      r_outputdir = None, r_stagedir = None,
      r_result = '''', r_run_no = 0\<rparr>"

text \<open>\<open>if check.job: ...\<close>; \<open>partition.scheduler\<close> raises when the partition is \<open>None\<close>.\<close>

definition entry_job :: "'x task \<Rightarrow> entry \<Rightarrow> error + entry" where
  "entry_job t e =
     (case job (check t) of
        None \<Rightarrow> Inr e
      | Some j \<Rightarrow>
          (case current_partition (check t) of
             None \<Rightarrow> Inl AttributeError
           | Some p \<Rightarrow>
               Inr (e\<lparr>r_scheduler := Some (registered_name (scheduler p)),
                       r_jobid := jobid j,
                       r_nodelist := (case nodelist j of None \<Rightarrow> [] | Some ns \<Rightarrow> ns),
                       r_job_stdout := Some (stdout (check t)),
                       r_job_stderr := Some (stderr (check t))\<rparr>)))"

text \<open>\<open>if check._build_job: ...\<close>\<close>

definition entry_build :: "'x task \<Rightarrow> entry \<Rightarrow> entry" where
  "entry_build t e =
     (case build_job (check t) of
        None \<Rightarrow> e
      | Some b \<Rightarrow> e\<lparr>r_build_stdout := Some (build_stdout (check t)),
                     r_build_stderr := Some (build_stderr (check t))\<rparr>)"

text \<open>
  \<open>if t.failed: ... else: ...\<close>; \<open>format_exception\<close> is imported from another module and
  is a parameter here. An exception it raises is not caught.
\<close>

definition entry_result :: "('x \<Rightarrow> error + string) \<Rightarrow> 'x task \<Rightarrow> entry \<Rightarrow> error + entry" where
  "entry_result format_exception t e =
     (if failed t then
        (case exc_info t of
           None \<Rightarrow> Inr (e\<lparr>r_result := ''fail''\<rparr>)
         | Some x \<Rightarrow>
             (case format_exception x of
                Inl err \<Rightarrow> Inl err
              | Inr reason \<Rightarrow>
                  Inr (e\<lparr>r_result := ''fail'',
                          r_failing_reason := Some reason,
                          r_failing_phase := Some (failed_stage t),
                          r_stagedir := stagedir (check t)\<rparr>)))
      else Inr (e\<lparr>r_result := ''success'', r_outputdir := outputdir (check t)\<rparr>))"

text \<open>The body of the inner loop of \<open>json\<close>: the record of one task of run \<open>run_no\<close>.\<close>

definition json_entry :: "('x \<Rightarrow> error + string) \<Rightarrow> nat \<Rightarrow> 'x task \<Rightarrow> error + entry" where
  "json_entry format_exception run_no t =
     (case entry_job t (entry_init t) of
        Inl err \<Rightarrow> Inl err
      | Inr e1 \<Rightarrow>
          (case entry_result format_exception t (entry_build t e1) of
             Inl err \<Rightarrow> Inl err
           | Inr e2 \<Rightarrow> Inr (e2\<lparr>r_run_no := run_no\<rparr>)))"

fun json_run ::
  "('x \<Rightarrow> error + string) \<Rightarrow> nat \<Rightarrow> 'x task list \<Rightarrow> entry list \<Rightarrow> error + entry list" where
  "json_run format_exception run_no [] records = Inr records"
| "json_run format_exception run_no (t # ts) records =
     (case json_entry format_exception run_no t of
        Inl err \<Rightarrow> Inl err
      | Inr e \<Rightarrow> json_run format_exception run_no ts (records @ [e]))"

text \<open>The outer loop, \<open>for run_no, run in enumerate(self._alltasks)\<close>.\<close>

fun json_runs ::
  "('x \<Rightarrow> error + string) \<Rightarrow> nat \<Rightarrow> 'x task list list \<Rightarrow> entry list \<Rightarrow> error + entry list"
  where
  "json_runs format_exception run_no [] records = Inr records"
| "json_runs format_exception run_no (run # runs) records =
     (case json_run format_exception run_no run records of
        Inl err \<Rightarrow> Inl err
      | Inr records' \<Rightarrow> json_runs format_exception (Suc run_no) runs records')"

definition json :: "('x \<Rightarrow> error + string) \<Rightarrow> 'x test_stats \<Rightarrow> error + entry list" where
  "json format_exception st = json_runs format_exception 0 (alltasks st) []"

subsection \<open>The failure report\<close>

text \<open>
  \<open>'%s' % xs\<close> for a list of strings is the list in brackets, each element as \<open>repr()\<close>
  writes it; Python's \<open>repr\<close> on strings is a parameter.
\<close>

definition str_list :: "(string \<Rightarrow> string) \<Rightarrow> string list \<Rightarrow> string" where
  "str_list repr xs = ''['' @ join '', '' (map repr xs) @ '']''"

definition str_jobid :: "int option \<Rightarrow> string" where
  "str_jobid v = (case v of None \<Rightarrow> ''None'' | Some i \<Rightarrow> str_int i)"

text \<open>The lines appended for one failing record \<open>r\<close> of the last run.\<close>

definition failure_lines :: "(string \<Rightarrow> string) \<Rightarrow> nat \<Rightarrow> entry \<Rightarrow> string list" where
  "failure_lines repr last_run r =
     (let retry_info = (if last_run > 0
                        then ''(for the last of '' @ str_nat last_run @ '' retries)''
                        else '''');
          job_type = (if r_scheduler r = Some ''local'' then ''local'' else ''batch job'')
      in [replicate line_width CHR ''-'',
          ''FAILURE INFO for '' @ r_testname r @ '' '' @ retry_info,
          ''  * Test Description: '' @ r_description r,
          ''  * System partition: '' @ str_opt (r_system r),
          ''  * Environment: '' @ str_opt (r_environment r),
          ''  * Stage directory: '' @ str_opt (r_stagedir r),
          ''  * Node list: '' @ (if r_nodelist r \<noteq> [] then join '','' (r_nodelist r)
                                 else ''None''),
          ''  * Job type: '' @ job_type @ '' (id='' @ str_jobid (r_jobid r) @ '')'',
          ''  * Maintainers: '' @ str_list repr (r_maintainers r),
          ''  * Failing phase: '' @ str_opt (r_failing_phase r),
          ''  * Rerun with '' @ [CHR 0x27] @ ''-n '' @ r_testname r
             @ '' -p '' @ str_opt (r_environment r)
             @ '' --system '' @ str_opt (r_system r) @ [CHR 0x27],
          ''  * Reason: '' @ str_opt (r_failing_reason r),
          (if r_failing_phase r = Some ''sanity'' then ''Sanity check failure''
           else if r_failing_phase r = Some ''performance'' then ''Performance check failure''
           else ''Unknown error.'')])"

fun failure_records ::
  "(string \<Rightarrow> string) \<Rightarrow> nat \<Rightarrow> entry list \<Rightarrow> string list \<Rightarrow> string list" where
  "failure_records repr last_run [] report = report"
| "failure_records repr last_run (r # rs) report =
     (if r_result r = ''success'' \<or> r_run_no r \<noteq> last_run
      then failure_records repr last_run rs report
      else failure_records repr last_run rs (report @ failure_lines repr last_run r))"

definition failure_report ::
  "('x \<Rightarrow> error + string) \<Rightarrow> (string \<Rightarrow> string) \<Rightarrow> nat \<Rightarrow> 'x test_stats \<Rightarrow> error + string"
  where
  "failure_report format_exception repr current_run st =
     (case json format_exception st of
        Inl err \<Rightarrow> Inl err
      | Inr records \<Rightarrow>
          Inr (join nl
                 (failure_records repr current_run records
                    [replicate line_width CHR ''='', ''SUMMARY OF FAILURES'']
                  @ [replicate line_width CHR ''-''])))"

subsection \<open>The failure statistics\<close>

text \<open>\<open>"{:<13} {:<5} {}".format(p, n, f)\<close>\<close>

definition row_format :: "string \<Rightarrow> string \<Rightarrow> string \<Rightarrow> string" where
  "row_format p n f = ljust 13 p @ '' '' @ ljust 5 n @ '' '' @ f"

definition failure_label :: "'x task \<Rightarrow> string" where
  "failure_label tf =
     (let partfullname = (case current_partition (check tf) of
                            None \<Rightarrow> ''None'' | Some p \<Rightarrow> fullname p);
          environ_nm = (case current_environ (check tf) of
                          None \<Rightarrow> ''None'' | Some e \<Rightarrow> environ_name e)
      in ''['' @ name (check tf) @ '', '' @ environ_nm @ '', '' @ partfullname @ '']'')"

text \<open>
  The dictionary \<open>failures\<close>, from a stage to the labels of the tasks that failed in it,
  in the order of insertion.
\<close>

fun collect_failures ::
  "'x task list \<Rightarrow> (string \<times> string list) list \<Rightarrow> (string \<times> string list) list" where
  "collect_failures [] fs = fs"
| "collect_failures (tf # ts) fs =
     collect_failures ts
       (AList.update (failed_stage tf)
          ((case map_of fs (failed_stage tf) of None \<Rightarrow> [] | Some l \<Rightarrow> l)
             @ [failure_label tf]) fs)"

text \<open>The rows of the table, stage by stage; \<open>l[0]\<close> raises on an empty list.\<close>

fun stats_rows :: "(string \<times> string list) list \<Rightarrow> string list \<Rightarrow> error + string list" where
  "stats_rows [] body = Inr body"
| "stats_rows ((p, []) # fs) body = Inl IndexError"
| "stats_rows ((p, f # l) # fs) body =
     stats_rows fs
       (body @ row_format p (str_nat (length (f # l))) f # map (row_format '''' '''') l)"

definition failure_stats :: "nat \<Rightarrow> 'x test_stats \<Rightarrow> error + string" where
  "failure_stats current_run st =
     (case tasks st (int current_run) of
        Inl err \<Rightarrow> Inl err
      | Inr ts \<Rightarrow>
          (let fs = collect_failures (filter failed ts) [];
               stats_start = replicate line_width CHR ''='';
               stats_title = ''FAILURE STATISTICS'';
               stats_end = replicate line_width CHR ''-'';
               stats_hline = row_format (replicate 13 CHR ''-'') (replicate 5 CHR ''-'')
                               (replicate 60 CHR ''-'');
               stats_header = row_format ''Phase'' ''#'' ''Failing test cases'';
               num_tests = length ts;
               num_failures = sum_list (map (\<lambda>(p, l). length l) fs)
           in case stats_rows fs
                     ['''',
                      ''Total number of test cases: '' @ str_nat num_tests,
                      ''Total number of failures: '' @ str_nat num_failures,
                      '''', stats_header, stats_hline] of
                Inl err \<Rightarrow> Inl err
              | Inr stats_body \<Rightarrow>
                  Inr (if stats_body \<noteq> []
                       then join nl ([stats_start, stats_title] @ stats_body @ [stats_end])
                       else '''')))"

subsection \<open>The performance report\<close>

text \<open>
  The loop over \<open>perfvalues.items()\<close>: \<open>ref[0]\<close> raises on an empty tuple, a missing
  \<open>ref[4]\<close> is caught and replaced.
\<close>

fun perf_values :: "(string \<times> string list) list \<Rightarrow> string list \<Rightarrow> error + string list" where
  "perf_values [] body = Inr body"
| "perf_values ((key, []) # kvs) body = Inl IndexError"
| "perf_values ((key, val # rest) # kvs) body =
     perf_values kvs
       (body @ [''      * '' @ last (split CHR '':'' key) @ '': '' @ val @ '' ''
                  @ (if 4 < length (val # rest) then (val # rest) ! 4
                     else ''(no unit specified)'')])"

text \<open>
  The headers of a task with performance values: the test, when its name is not that of
  the task before, and the partition, when its full name is not that of the task before.
\<close>

definition perf_headers :: "'x task \<Rightarrow> system_partition \<Rightarrow> string \<Rightarrow> string \<Rightarrow> string list" where
  "perf_headers t p previous_name previous_part =
     (if name (check t) \<noteq> previous_name
      then [replicate line_width CHR ''-'', name (check t)] else [])
     @ (if fullname p \<noteq> previous_part then [''- '' @ fullname p] else [])"

text \<open>The lines of the environment and of \<open>num_tasks\<close>.\<close>

definition perf_task_lines :: "'x task \<Rightarrow> string list" where
  "perf_task_lines t =
     [''   - '' @ (case current_environ (check t) of
                      None \<Rightarrow> ''None'' | Some e \<Rightarrow> environ_str e),
      ''      * num_tasks: '' @ str_int (num_tasks (check t))]"

text \<open>
  The loop over the tasks, with \<open>previous_name\<close>, \<open>previous_part\<close> and \<open>report_body\<close> as
  its state. \<open>current_partition.fullname\<close> is read without a test for \<open>None\<close>.
\<close>

fun perf_tasks ::
  "'x task list \<Rightarrow> string \<Rightarrow> string \<Rightarrow> string list \<Rightarrow> error + string list" where
  "perf_tasks [] previous_name previous_part body = Inr body"
| "perf_tasks (t # ts) previous_name previous_part body =
     (if perfvalues (check t) \<noteq> [] then
        (case current_partition (check t) of
           None \<Rightarrow> Inl AttributeError
         | Some p \<Rightarrow>
             (case perf_values (perfvalues (check t))
                     (body @ perf_headers t p previous_name previous_part
                        @ perf_task_lines t) of
                Inl err \<Rightarrow> Inl err
              | Inr body' \<Rightarrow> perf_tasks ts (name (check t)) (fullname p) body'))
      else perf_tasks ts previous_name previous_part body)"

definition performance_report :: "'x test_stats \<Rightarrow> error + string" where
  "performance_report st =
     (case tasks st (- 1) of
        Inl err \<Rightarrow> Inl err
      | Inr ts \<Rightarrow>
          (case perf_tasks ts '''' '''' [] of
             Inl err \<Rightarrow> Inl err
           | Inr report_body \<Rightarrow>
               Inr (if report_body \<noteq> []
                    then join nl ([replicate line_width CHR ''='', ''PERFORMANCE REPORT'']
                                  @ report_body @ [replicate line_width CHR ''-''])
                    else '''')))"

subsection \<open>A small session\<close>

text \<open>
  Concrete objects on which the theorems below are evaluated: two tests on one partition,
  tasks that pass, fail at the sanity stage, fail without exception information and fail
  with an exception that cannot be formatted, and stores of one, two and three runs.
  The exception information is a string here.
\<close>

definition example_partition :: system_partition where
  "example_partition = \<lparr>fullname = ''daint:gpu'', scheduler = \<lparr>registered_name = ''local''\<rparr>\<rparr>"

definition example_environ :: environ where
  "example_environ = \<lparr>environ_name = ''gnu'', environ_str = ''gnu''\<rparr>"

definition example_check :: check where
  "example_check =
     \<lparr>name = ''hello'', descr = ''a first test'', info = ''hello (a first test)'',
      current_partition = Some example_partition,
      current_environ = Some example_environ,
      tags = [], maintainers = [''me''], job = None, build_job = None,
      stdout = ''hello.out'', stderr = ''hello.err'',
      build_stdout = ''build.out'', build_stderr = ''build.err'',
      stagedir = Some ''/stage1'', outputdir = Some ''/out1'',
      num_tasks = 1, perfvalues = []\<rparr>"

definition other_check :: check where
  "other_check = example_check\<lparr>name := ''stream'', info := ''stream (bandwidth)''\<rparr>"

definition passing_task :: "string task" where
  "passing_task = \<lparr>check = example_check, failed = False, failed_stage = '''',
                    exc_info = None\<rparr>"

definition failing_task :: "string task" where
  "failing_task = \<lparr>check = example_check, failed = True, failed_stage = ''sanity'',
                    exc_info = Some ''assertion X failed''\<rparr>"

definition bare_failure :: "string task" where
  "bare_failure = \<lparr>check = example_check, failed = True, failed_stage = ''sanity'',
                    exc_info = None\<rparr>"

definition unformattable_task :: "string task" where
  "unformattable_task = \<lparr>check = other_check, failed = True, failed_stage = ''run'',
                          exc_info = Some ''bad''\<rparr>"

definition perf_task :: "string task" where
  "perf_task =
     \<lparr>check = other_check\<lparr>perfvalues :=
               [(''daint:gpu:triad'', [''40.5'', ''40'', ''-0.1'', ''0.1'', ''GB/s''])]\<rparr>,
      failed = False, failed_stage = '''', exc_info = None\<rparr>"

definition perf_task_no_partition :: "string task" where
  "perf_task_no_partition =
     perf_task\<lparr>check := (check perf_task)\<lparr>current_partition := None\<rparr>\<rparr>"

text \<open>A formatter that raises on one payload and returns the others as they are.\<close>

definition example_format :: "string \<Rightarrow> error + string" where
  "example_format x = (if x = ''bad'' then Inl (OtherError ''cannot format'') else Inr x)"

definition example_repr :: "string \<Rightarrow> string" where
  "example_repr s = [CHR 0x27] @ s @ [CHR 0x27]"

definition one_run :: "string test_stats" where
  "one_run = \<lparr>alltasks = [[passing_task, failing_task]]\<rparr>"

definition two_runs :: "string test_stats" where
  "two_runs = \<lparr>alltasks = [[passing_task, failing_task], [failing_task]]\<rparr>"

definition bare_store :: "string test_stats" where
  "bare_store = \<lparr>alltasks = [[bare_failure]]\<rparr>"

definition mixed_run :: "string test_stats" where
  "mixed_run = \<lparr>alltasks = [[passing_task, unformattable_task, failing_task]]\<rparr>"

text \<open>The records that the projector makes of the three tasks of run 0.\<close>

definition passing_entry :: entry where
  "passing_entry =
     \<lparr>r_testname = ''hello'', r_description = ''a first test'',
      r_system = Some ''daint:gpu'', r_environment = Some ''gnu'',
      r_tags = [], r_maintainers = [''me''],
      r_scheduler = None, r_jobid = None, r_nodelist = [],
      r_job_stdout = None, r_job_stderr = None,
      r_build_stdout = None, r_build_stderr = None,
      r_failing_reason = None, r_failing_phase = None,
      r_outputdir = Some ''/out1'', r_stagedir = None,
      r_result = ''success'', r_run_no = 0\<rparr>"

definition failing_entry :: entry where
  "failing_entry =
     passing_entry\<lparr>r_failing_reason := Some ''assertion X failed'',
                    r_failing_phase := Some ''sanity'',
                    r_outputdir := None, r_stagedir := Some ''/stage1'',
                    r_result := ''fail''\<rparr>"

definition bare_failure_entry :: entry where
  "bare_failure_entry = passing_entry\<lparr>r_outputdir := None, r_result := ''fail''\<rparr>"

definition no_partition_store :: "string test_stats" where
  "no_partition_store = \<lparr>alltasks = [[perf_task_no_partition]]\<rparr>"

definition earlier_perf_store :: "string test_stats" where
  "earlier_perf_store = \<lparr>alltasks = [[perf_task], [passing_task]]\<rparr>"

definition perf_store :: "string test_stats" where
  "perf_store = \<lparr>alltasks = [[passing_task], [perf_task, passing_task]]\<rparr>"

definition retried_store :: "string test_stats" where
  "retried_store =
     \<lparr>alltasks = [[passing_task, failing_task, unformattable_task],
                  [unformattable_task, failing_task],
                  [passing_task]]\<rparr>"

definition second_perf_task :: "string task" where
  "second_perf_task =
     \<lparr>check = example_check\<lparr>perfvalues := [(''time'', [''1.5''])]\<rparr>,
      failed = False, failed_stage = '''', exc_info = None\<rparr>"

definition ordered_perf_store :: "string test_stats" where
  "ordered_perf_store = \<lparr>alltasks = [[passing_task], [perf_task, second_perf_task]]\<rparr>"

section \<open>Properties\<close>

lemmas example_defs =
  example_partition_def example_environ_def example_check_def other_check_def
  passing_task_def failing_task_def bare_failure_def unformattable_task_def
  perf_task_def perf_task_no_partition_def example_format_def
  example_repr_def one_run_def two_runs_def bare_store_def mixed_run_def
  passing_entry_def failing_entry_def bare_failure_entry_def
  no_partition_store_def earlier_perf_store_def perf_store_def retried_store_def
  second_perf_task_def ordered_perf_store_def

subsection \<open>Decimal numbers\<close>

lemma str_nat_0: "str_nat 0 = ''0''"
  by (simp add: str_nat.simps)

subsection \<open>The store\<close>

text \<open>
  Claim C5. For every store with \<open>n\<close> runs (last index \<open>n - 1\<close>), the lookup returns the
  run at position \<open>run\<close> for \<open>0 \<le> run < n\<close> and the run at position \<open>n + run\<close> for
  \<open>- n \<le> run < 0\<close>; for every other index, below \<open>- n\<close> or from \<open>n\<close> on, it raises
  \<open>StatisticsError\<close>, the error the specification calls NoSuchRunError.
\<close>

theorem tasks_lookup:
  "(- int (length (alltasks st)) \<le> run \<and> run < int (length (alltasks st)) \<longrightarrow>
      tasks st run =
        Inr (alltasks st ! (if run < 0 then nat (int (length (alltasks st)) + run)
                            else nat run)))
   \<and> (run < - int (length (alltasks st)) \<or> int (length (alltasks st)) \<le> run \<longrightarrow>
      tasks st run = Inl (StatisticsError (''no such run: '' @ str_int run)))"
  by (auto simp: tasks_def)

theorem tasks_lookup_witness:
  "tasks two_runs (- 2) = Inr [passing_task, failing_task]
   \<and> tasks two_runs 1 = Inr [failing_task]
   \<and> tasks two_runs 2 = Inl (StatisticsError ''no such run: 2'')
   \<and> tasks two_runs (- 3) = Inl (StatisticsError ''no such run: -3'')"
  using tasks_lookup [of two_runs "- 2"] tasks_lookup [of two_runs 1]
    tasks_lookup [of two_runs 2] tasks_lookup [of two_runs "- 3"]
  by (simp add: two_runs_def str_int_def str_nat.simps)

text \<open>
  A call with the counter at 2 on the fresh store, which has one run: indexing raises, no
  run is created and the task is not added.
\<close>

theorem add_task_counter_ahead:
  "length (alltasks (init :: string test_stats)) = 1
   \<and> add_task 2 passing_task (init :: string test_stats) = Inl IndexError"
  by (simp add: add_task_def init_def)

text \<open>
  Claim C10, as the code has it. When the run counter is at most the number of runs in the store, \<open>add_task\<close>
  returns a store in which the run at the index of the counter is the old run at that
  index (the empty run, if the index is new) followed by the task; the number of runs
  grows by one exactly when the counter equals the old number of runs and is unchanged
  otherwise, and every other run is as before.
\<close>

theorem add_task_appends:
  assumes "current_run \<le> length (alltasks st)"
  shows "\<exists>st'. add_task current_run t st = Inr st'
           \<and> length (alltasks st') =
               (if current_run = length (alltasks st) then Suc (length (alltasks st))
                else length (alltasks st))
           \<and> alltasks st' ! current_run =
               (if current_run = length (alltasks st) then [] else alltasks st ! current_run)
                 @ [t]
           \<and> (\<forall>i < length (alltasks st). i \<noteq> current_run \<longrightarrow>
                 alltasks st' ! i = alltasks st ! i)"
proof (cases "current_run = length (alltasks st)")
  case True
  then show ?thesis
    by (simp add: add_task_def nth_append)
next
  case False
  with assms have "current_run < length (alltasks st)" by simp
  then show ?thesis
    using False by (simp add: add_task_def Let_def)
qed

theorem add_task_appends_witness:
  "\<exists>st'. add_task 1 failing_task one_run = Inr st'
     \<and> length (alltasks st') = 2
     \<and> alltasks st' ! 1 = [failing_task]
     \<and> alltasks st' ! 0 = [passing_task, failing_task]"
proof -
  have "(1::nat) \<le> length (alltasks one_run)"
    by (simp add: one_run_def)
  from add_task_appends [OF this, of failing_task] show ?thesis
    by (auto simp: one_run_def)
qed

text \<open>
  Beyond that, \<open>self._alltasks[current_run]\<close> raises: no run is created and no task is
  added when the counter is ahead of the store by more than one.
\<close>

lemma add_task_beyond:
  "length (alltasks st) < current_run \<Longrightarrow> add_task current_run t st = Inl IndexError"
  by (simp add: add_task_def)

subsection \<open>The retry report\<close>

text \<open>
  Claim C8. When the run counter is 0, the retry report is the empty string, whatever the
  store holds.
\<close>

theorem retry_report_first_run: "retry_report 0 st = Inr ''''"
  by (simp add: retry_report_def)

subsection \<open>The failure statistics\<close>

text \<open>
  Claim C9. When the current run has no tasks, the failure statistics are the banner, the
  two totals with the count 0, the header of the table and the closing line; the result is
  not the empty string.
\<close>

theorem failure_stats_empty_run:
  assumes "tasks st (int current_run) = Inr []"
  shows "failure_stats current_run st =
           Inr (join nl [replicate 78 CHR ''='', ''FAILURE STATISTICS'', '''',
                         ''Total number of test cases: 0'',
                         ''Total number of failures: 0'', '''',
                         ''Phase         #     Failing test cases'',
                         replicate 13 CHR ''-'' @ '' '' @ replicate 5 CHR ''-'' @ '' ''
                           @ replicate 60 CHR ''-'',
                         replicate 78 CHR ''-''])
         \<and> failure_stats current_run st \<noteq> Inr ''''"
  using assms
  by (simp add: failure_stats_def str_nat_0 row_format_def ljust_def line_width_def nl_def
      eval_nat_numeral)

theorem failure_stats_empty_run_witness:
  "tasks (init :: string test_stats) (int 0) = Inr []
   \<and> failure_stats 0 (init :: string test_stats) \<noteq> Inr ''''"
proof -
  have h: "tasks (init :: string test_stats) (int 0) = Inr []"
    by (simp add: init_def tasks_def)
  from failure_stats_empty_run [OF h] h show ?thesis
    by blast
qed

subsection \<open>The projector\<close>

text \<open>The record of a task carries the index of the run it was made for.\<close>

lemma json_entry_run_no: "json_entry fmt n t = Inr e \<Longrightarrow> r_run_no e = n"
  by (auto simp: json_entry_def split: sum.splits)

text \<open>
  When the loops of \<open>json\<close> return, the records are, in order, what \<open>json_entry\<close>
  returns for each task of each run.
\<close>

lemma json_run_Inr:
  "json_run fmt n ts acc = Inr rs \<Longrightarrow>
     \<exists>rs'. rs = acc @ rs' \<and> map Inr rs' = map (json_entry fmt n) ts"
proof (induction ts arbitrary: acc)
  case Nil
  then show ?case by simp
next
  case (Cons t ts)
  then obtain e where e: "json_entry fmt n t = Inr e"
    and rest: "json_run fmt n ts (acc @ [e]) = Inr rs"
    by (auto split: sum.splits)
  from Cons.IH [OF rest] obtain rs' where
    "rs = (acc @ [e]) @ rs'" "map Inr rs' = map (json_entry fmt n) ts"
    by blast
  then have "rs = acc @ (e # rs') \<and> map Inr (e # rs') = map (json_entry fmt n) (t # ts)"
    using e by simp
  then show ?case by blast
qed

lemma json_runs_Inr:
  "json_runs fmt n runs acc = Inr rs \<Longrightarrow>
     \<exists>rs'. rs = acc @ rs'
       \<and> map Inr rs' = concat (map (\<lambda>(k, run). map (json_entry fmt k) run) (enumerate n runs))"
proof (induction runs arbitrary: n acc)
  case Nil
  then show ?case by simp
next
  case (Cons run runs)
  then obtain mid where mid: "json_run fmt n run acc = Inr mid"
    and rest: "json_runs fmt (Suc n) runs mid = Inr rs"
    by (auto split: sum.splits)
  from json_run_Inr [OF mid] obtain r1 where
    r1: "mid = acc @ r1" "map Inr r1 = map (json_entry fmt n) run"
    by blast
  from Cons.IH [OF rest] obtain r2 where
    r2: "rs = mid @ r2"
        "map Inr r2 = concat (map (\<lambda>(k, run). map (json_entry fmt k) run)
                                (enumerate (Suc n) runs))"
    by blast
  have "rs = acc @ (r1 @ r2)"
    using r1 r2 by simp
  moreover have "map Inr (r1 @ r2) =
      concat (map (\<lambda>(k, run). map (json_entry fmt k) run) (enumerate n (run # runs)))"
    using r1 r2 by simp
  ultimately show ?case by blast
qed

lemma json_records:
  "json fmt st = Inr records \<Longrightarrow>
     map Inr records =
       concat (map (\<lambda>(k, run). map (json_entry fmt k) run) (enumerate 0 (alltasks st)))"
  using json_runs_Inr [of fmt 0 "alltasks st" "[]" records] by (simp add: json_def)

lemma json_record_source:
  assumes "json fmt st = Inr records" and "r \<in> set records"
  shows "\<exists>run_no t. run_no < length (alltasks st) \<and> t \<in> set (alltasks st ! run_no)
           \<and> json_entry fmt run_no t = Inr r"
proof -
  note eq = json_records [OF assms(1)]
  have "Inr r \<in> set (concat (map (\<lambda>(k, run). map (json_entry fmt k) run)
                                     (enumerate 0 (alltasks st))))"
    using assms(2) by (subst eq [symmetric]) simp
  then obtain k run where kr: "(k, run) \<in> set (enumerate 0 (alltasks st))"
    and mem: "Inr r \<in> set (map (json_entry fmt k) run)"
    by fastforce
  from kr have "k < length (alltasks st)" "run = alltasks st ! k"
    by (auto simp: in_set_enumerate_eq)
  moreover from mem obtain t where "t \<in> set run" "json_entry fmt k t = Inr r"
    by auto
  ultimately show ?thesis by blast
qed

text \<open>What the conditional assignments leave in a record.\<close>

lemma json_entry_fields:
  assumes "json_entry fmt n t = Inr r"
  shows "(\<forall>x. failed t \<and> exc_info t = Some x \<longrightarrow>
            (\<exists>reason. fmt x = Inr reason \<and> r_failing_reason r = Some reason)
            \<and> r_failing_phase r = Some (failed_stage t)
            \<and> r_stagedir r = stagedir (check t) \<and> r_outputdir r = None)
       \<and> (failed t \<and> exc_info t = None \<longrightarrow>
            r_failing_reason r = None \<and> r_failing_phase r = None
            \<and> r_stagedir r = None \<and> r_outputdir r = None)
       \<and> (\<not> failed t \<longrightarrow>
            r_outputdir r = outputdir (check t) \<and> r_stagedir r = None
            \<and> r_failing_reason r = None \<and> r_failing_phase r = None)
       \<and> r_result r = (if failed t then ''fail'' else ''success'')"
  using assms
  by (auto simp: json_entry_def entry_job_def entry_build_def entry_result_def entry_init_def
      split: sum.splits option.splits if_splits)

lemma json_one_run: "json example_format one_run = Inr [passing_entry, failing_entry]"
  by (simp add: json_def json_entry_def entry_job_def entry_build_def entry_result_def
      entry_init_def passing_entry_def failing_entry_def example_defs)

text \<open>The loops return when every task can be projected.\<close>

lemma json_entry_total:
  assumes "job (check t) = None \<or> current_partition (check t) \<noteq> None"
    and "\<forall>x. failed t \<and> exc_info t = Some x \<longrightarrow> (\<exists>s. fmt x = Inr s)"
  shows "\<exists>e. json_entry fmt n t = Inr e"
  using assms
  by (auto simp: json_entry_def entry_job_def entry_result_def split: option.splits sum.splits)

lemma json_run_total:
  "\<forall>t\<in>set ts. \<exists>e. json_entry fmt n t = Inr e \<Longrightarrow> \<exists>rs. json_run fmt n ts acc = Inr rs"
  by (induction ts arbitrary: acc) auto

lemma json_runs_total:
  "\<forall>run\<in>set runs. \<forall>t\<in>set run. \<forall>k. \<exists>e. json_entry fmt k t = Inr e \<Longrightarrow>
     \<exists>rs. json_runs fmt n runs acc = Inr rs"
proof (induction runs arbitrary: n acc)
  case Nil
  then show ?case by simp
next
  case (Cons run runs)
  then have "\<forall>t\<in>set run. \<exists>e. json_entry fmt n t = Inr e" by simp
  from json_run_total [OF this] obtain mid where "json_run fmt n run acc = Inr mid"
    by blast
  moreover from Cons obtain rs where "json_runs fmt (Suc n) runs mid = Inr rs"
    by fastforce
  ultimately show ?case by simp
qed

text \<open>The run numbers of the records, read off the projections of the tasks.\<close>

lemma run_no_concat:
  "map Inr records = concat (map (\<lambda>(k, run). map (json_entry fmt k) run) (enumerate n runs))
   \<Longrightarrow> map r_run_no records =
         concat (map (\<lambda>(k, run). replicate (length run) k) (enumerate n runs))"
proof (induction runs arbitrary: n records)
  case Nil
  then show ?case by simp
next
  case (Cons run runs)
  let ?rest = "concat (map (\<lambda>(k, run). map (json_entry fmt k) run) (enumerate (Suc n) runs))"
  from Cons.prems have eq: "map Inr records = map (json_entry fmt n) run @ ?rest"
    by simp
  define r1 where "r1 = take (length run) records"
  define r2 where "r2 = drop (length run) records"
  have recs: "records = r1 @ r2" by (simp add: r1_def r2_def)
  have h1: "map Inr r1 = map (json_entry fmt n) run"
    using arg_cong [OF eq, of "take (length run)"] by (simp add: r1_def take_map)
  have h2: "map Inr r2 = ?rest"
    using arg_cong [OF eq, of "drop (length run)"] by (simp add: r2_def drop_map)
  have "map r_run_no r1 = replicate (length run) n"
  proof (rule nth_equalityI)
    show "length (map r_run_no r1) = length (replicate (length run) n)"
      using arg_cong [OF h1, of length] by simp
  next
    fix i assume "i < length (map r_run_no r1)"
    then have i: "i < length r1" by simp
    then have i': "i < length run" using arg_cong [OF h1, of length] by simp
    have "map Inr r1 ! i = map (json_entry fmt n) run ! i" using h1 by simp
    then have "json_entry fmt n (run ! i) = Inr (r1 ! i)" using i i' by simp
    then have "r_run_no (r1 ! i) = n" by (rule json_entry_run_no)
    then show "map r_run_no r1 ! i = replicate (length run) n ! i" using i i' by simp
  qed
  moreover have "map r_run_no r2 =
      concat (map (\<lambda>(k, run). replicate (length run) k) (enumerate (Suc n) runs))"
    using Cons.IH [OF h2] .
  ultimately show ?case using recs by simp
qed

lemma length_run_nos:
  "length (concat (map (\<lambda>(k, run). replicate (length run) k) (enumerate n runs))) =
     sum_list (map length runs)"
  by (induction runs arbitrary: n) simp_all

text \<open>
  A store of three tasks whose second cannot be formatted: \<open>json\<close> raises and returns no
  record at all.
\<close>

theorem json_raises_on_mixed_run:
  "sum_list (map length (alltasks mixed_run)) = 3
   \<and> json example_format mixed_run = Inl (OtherError ''cannot format'')"
  by (simp add: json_def json_entry_def entry_job_def entry_build_def entry_result_def
      entry_init_def example_defs)

text \<open>
  Claim C7, as the code has it. For every store in which no task makes the projector raise (a task with a job
  has a partition, and the exception information of a failed task can be formatted), \<open>json\<close>
  returns a list of records that holds, in order, the record of each task of each run: its
  length is the sum of the lengths of the runs, and the \<open>run_no\<close> of each record is the
  index of the run of its task.
\<close>

theorem json_one_record_per_task:
  assumes "\<forall>run\<in>set (alltasks st). \<forall>t\<in>set run.
             (job (check t) = None \<or> current_partition (check t) \<noteq> None)
             \<and> (\<forall>x. failed t \<and> exc_info t = Some x \<longrightarrow> (\<exists>s. fmt x = Inr s))"
  shows "\<exists>records. json fmt st = Inr records
           \<and> map Inr records =
               concat (map (\<lambda>(run_no, run). map (json_entry fmt run_no) run)
                         (enumerate 0 (alltasks st)))
           \<and> length records = sum_list (map length (alltasks st))
           \<and> map r_run_no records =
               concat (map (\<lambda>(run_no, run). replicate (length run) run_no)
                         (enumerate 0 (alltasks st)))"
proof -
  have "\<forall>run\<in>set (alltasks st). \<forall>t\<in>set run. \<forall>k. \<exists>e. json_entry fmt k t = Inr e"
    using assms json_entry_total by blast
  from json_runs_total [OF this] obtain records where r: "json fmt st = Inr records"
    unfolding json_def by blast
  note recs = json_records [OF r]
  note nos = run_no_concat [OF recs]
  have "length (map r_run_no records) = sum_list (map length (alltasks st))"
    unfolding nos by (rule length_run_nos)
  then have "length records = sum_list (map length (alltasks st))"
    by simp
  then show ?thesis using r recs nos by blast
qed

theorem json_one_record_per_task_witness:
  "\<exists>records. json example_format two_runs = Inr records
     \<and> length records = 3 \<and> map r_run_no records = [0, 0, 1]"
proof -
  have "\<forall>run\<in>set (alltasks two_runs). \<forall>t\<in>set run.
          (job (check t) = None \<or> current_partition (check t) \<noteq> None)
          \<and> (\<forall>x. failed t \<and> exc_info t = Some x \<longrightarrow> (\<exists>s. example_format x = Inr s))"
    by (simp add: example_defs)
  from json_one_record_per_task [OF this] show ?thesis
    by (auto simp: two_runs_def)
qed

text \<open>
  The claim as written fails for a task that failed with \<open>exc_info\<close> being \<open>None\<close>: the
  test \<open>t.exc_info is not None\<close> guards the three assignments, and the record of such a
  task has neither reason nor phase nor stage directory, although the check has a stage
  directory.
\<close>

theorem bare_failure_record:
  "json example_format bare_store = Inr [bare_failure_entry]
   \<and> failed bare_failure
   \<and> stagedir (check bare_failure) = Some ''/stage1''
   \<and> r_failing_reason bare_failure_entry = None
   \<and> r_failing_phase bare_failure_entry = None
   \<and> r_stagedir bare_failure_entry = None"
  by (simp add: json_def json_entry_def entry_job_def entry_build_def entry_result_def
      entry_init_def bare_store_def bare_failure_entry_def example_defs)

text \<open>
  Claim C3, as the code has it. Every record that \<open>json\<close> returns is the record of a task
  of the store. If that task failed and has exception information, the record carries
  the formatted text, the failing stage and the stage directory, and no output directory.
  If it failed and has no exception information, the assignments are skipped: reason,
  phase, stage directory and output directory are all \<open>None\<close>. If it did not fail, the
  record carries the output directory and the other three are \<open>None\<close>. So the output
  directory is set only on success and the stage directory only on failure.
\<close>

theorem projected_record_fields:
  assumes "json fmt st = Inr records" and "r \<in> set records"
  shows "\<exists>run_no t. run_no < length (alltasks st) \<and> t \<in> set (alltasks st ! run_no)
           \<and> json_entry fmt run_no t = Inr r
           \<and> (\<forall>x. failed t \<and> exc_info t = Some x \<longrightarrow>
                 (\<exists>reason. fmt x = Inr reason \<and> r_failing_reason r = Some reason)
                 \<and> r_failing_phase r = Some (failed_stage t)
                 \<and> r_stagedir r = stagedir (check t) \<and> r_outputdir r = None)
           \<and> (failed t \<and> exc_info t = None \<longrightarrow>
                 r_failing_reason r = None \<and> r_failing_phase r = None
                 \<and> r_stagedir r = None \<and> r_outputdir r = None)
           \<and> (\<not> failed t \<longrightarrow>
                 r_outputdir r = outputdir (check t) \<and> r_stagedir r = None
                 \<and> r_failing_reason r = None \<and> r_failing_phase r = None)
           \<and> (r_outputdir r \<noteq> None \<longrightarrow> \<not> failed t)
           \<and> (r_stagedir r \<noteq> None \<longrightarrow> failed t)"
proof -
  from json_record_source [OF assms] obtain run_no t where
    src: "run_no < length (alltasks st)" "t \<in> set (alltasks st ! run_no)"
    and e: "json_entry fmt run_no t = Inr r"
    by blast
  note f = json_entry_fields [OF e]
  have "r_outputdir r \<noteq> None \<longrightarrow> \<not> failed t"
    using f by (cases "exc_info t") auto
  moreover have "r_stagedir r \<noteq> None \<longrightarrow> failed t"
    using f by auto
  ultimately show ?thesis
    using src e f by blast
qed

theorem projected_record_fields_witness:
  "json example_format one_run = Inr [passing_entry, failing_entry]
   \<and> (\<exists>run_no t. run_no < length (alltasks one_run) \<and> t \<in> set (alltasks one_run ! run_no)
         \<and> json_entry example_format run_no t = Inr failing_entry
         \<and> r_failing_reason failing_entry = Some ''assertion X failed''
         \<and> r_stagedir failing_entry = stagedir (check t))"
proof -
  have mem: "failing_entry \<in> set [passing_entry, failing_entry]" by simp
  from projected_record_fields [OF json_one_run mem]
  obtain run_no t where
    h: "run_no < length (alltasks one_run)" "t \<in> set (alltasks one_run ! run_no)"
       "json_entry example_format run_no t = Inr failing_entry"
       "\<forall>x. failed t \<and> exc_info t = Some x \<longrightarrow>
          (\<exists>reason. example_format x = Inr reason \<and> r_failing_reason failing_entry = Some reason)
          \<and> r_failing_phase failing_entry = Some (failed_stage t)
          \<and> r_stagedir failing_entry = stagedir (check t) \<and> r_outputdir failing_entry = None"
       "r_stagedir failing_entry \<noteq> None \<longrightarrow> failed t"
    by blast
  have "failed t" using h(5) by (simp add: failing_entry_def)
  moreover have "exc_info t \<noteq> None"
    using json_entry_fields [OF h(3)] \<open>failed t\<close> by (auto simp: failing_entry_def)
  ultimately have "r_stagedir failing_entry = stagedir (check t)"
    using h(4) by auto
  moreover have "r_failing_reason failing_entry = Some ''assertion X failed''"
    by (simp add: failing_entry_def)
  ultimately show ?thesis using h(1-3) json_one_run by blast
qed

text \<open>A task that cannot be formatted stops the loops of \<open>json\<close>.\<close>

lemma json_entry_unformattable:
  assumes "failed t" and "exc_info t = Some x" and "fmt x = Inl err"
  shows "\<exists>err'. json_entry fmt n t = Inl err'"
  using assms
  by (auto simp: json_entry_def entry_job_def entry_result_def split: option.splits sum.splits)

lemma json_run_raises:
  assumes "t \<in> set ts" and "json_entry fmt n t = Inl err"
  shows "\<exists>err'. json_run fmt n ts acc = Inl err'"
  using assms
  by (induction ts arbitrary: acc) (auto split: sum.splits)

lemma json_runs_raises:
  assumes "run \<in> set runs" and "t \<in> set run" and "\<forall>k. \<exists>err. json_entry fmt k t = Inl err"
  shows "\<exists>err'. json_runs fmt n runs acc = Inl err'"
  using assms
proof (induction runs arbitrary: n acc)
  case Nil
  then show ?case by simp
next
  case (Cons a runs)
  show ?case
  proof (cases "json_run fmt n a acc")
    case (Inl e)
    then show ?thesis by simp
  next
    case (Inr mid)
    have "run \<noteq> a"
    proof
      assume "run = a"
      with Cons.prems obtain err where "json_entry fmt n t = Inl err" "t \<in> set a"
        by blast
      from json_run_raises [OF this(2,1), of acc] Inr show False by simp
    qed
    with Cons.prems have "run \<in> set runs" by simp
    from Cons.IH [OF this Cons.prems(2,3)] Inr show ?thesis by simp
  qed
qed

text \<open>
  In a run of three tasks whose second cannot be formatted, the failure report is the
  error of the formatter, not a report on the third.
\<close>

theorem failure_report_aborts:
  "failure_report example_format example_repr 0 mixed_run = Inl (OtherError ''cannot format'')"
  by (simp add: failure_report_def json_def json_entry_def entry_job_def entry_build_def
      entry_result_def entry_init_def mixed_run_def example_defs)

text \<open>
  Claim C2, as the code has it. \<open>format_exception\<close> is called in \<open>json\<close> with no handler
  around it, and \<open>failure_report\<close> calls \<open>json\<close> with none either. If formatting raises
  for a failed task of any run, \<open>json\<close> raises and so does \<open>failure_report\<close>: no record is
  given a placeholder and no report is returned.
\<close>

theorem formatting_error_propagates:
  assumes "run \<in> set (alltasks st)" and "t \<in> set run"
    and "failed t" and "exc_info t = Some x" and "fmt x = Inl err"
  shows "\<exists>err'. json fmt st = Inl err' \<and> failure_report fmt repr current_run st = Inl err'"
proof -
  have "\<forall>k. \<exists>e. json_entry fmt k t = Inl e"
    using json_entry_unformattable [of t x fmt err] assms(3-5) by blast
  from json_runs_raises [OF assms(1,2) this] obtain err' where "json fmt st = Inl err'"
    unfolding json_def by blast
  then show ?thesis
    by (simp add: failure_report_def)
qed

theorem formatting_error_propagates_witness:
  "\<exists>err'. json example_format mixed_run = Inl err'
     \<and> failure_report example_format example_repr 0 mixed_run = Inl err'"
proof -
  have "[passing_task, unformattable_task, failing_task] \<in> set (alltasks mixed_run)"
    by (simp add: mixed_run_def)
  moreover have "unformattable_task \<in> set [passing_task, unformattable_task, failing_task]"
    by simp
  moreover have "failed unformattable_task" "exc_info unformattable_task = Some ''bad''"
    "example_format ''bad'' = Inl (OtherError ''cannot format'')"
    by (simp_all add: unformattable_task_def example_format_def)
  ultimately show ?thesis
    by (rule formatting_error_propagates)
qed

subsection \<open>The performance report\<close>

text \<open>
  Claim C4. A task that has performance values and no partition makes the performance
  report raise \<open>AttributeError\<close>: \<open>t.check.current_partition.fullname\<close> is read with no
  test for \<open>None\<close>, the test that \<open>retry_report\<close>, \<open>json\<close> and \<open>failure_stats\<close> make.
\<close>

theorem performance_report_no_partition:
  "performance_report no_partition_store = Inl AttributeError"
  by (simp add: performance_report_def tasks_def no_partition_store_def example_defs)


text \<open>The report of a store whose last run has one task with a performance value.\<close>

lemma perf_report_example:
  "performance_report perf_store =
     Inr (join nl [replicate 78 CHR ''='', ''PERFORMANCE REPORT'', replicate 78 CHR ''-'',
                   ''stream'', ''- daint:gpu'', ''   - gnu'', ''      * num_tasks: 1'',
                   ''      * triad: 40.5 GB/s'', replicate 78 CHR ''-''])"
  by (simp add: performance_report_def tasks_def perf_store_def example_defs line_width_def
      str_int_def str_nat.simps perf_headers_def perf_task_lines_def)













subsection \<open>The retry report after a retry\<close>












end
